theory Spec2Isabelle
  imports Main
begin

section \<open>JavaScript values used by the orchestrator\<close>

text \<open>
  A JavaScript string is modelled as a \<open>string\<close>: a list of code units, here the code
  units below 256 (Latin-1).  A value of type \<open>string | null\<close> or \<open>string | undefined\<close>
  is a \<open>string option\<close>.  The source tests such values for truthiness
  (\<open>!userImage\<close>, \<open>a || b\<close>, \<open>x ? y : z\<close>): \<open>null\<close>, \<open>undefined\<close> and the empty string
  are falsy, every other string is truthy.
\<close>

fun truthy :: "string option \<Rightarrow> bool" where
  "truthy None = False"
| "truthy (Some s) = (s \<noteq> [])"

text \<open>\<open>a || b\<close> on such values.\<close>

definition js_or :: "string option \<Rightarrow> string option \<Rightarrow> string option" where
  "js_or a b = (if truthy a then a else b)"

text \<open>\<open>String.prototype.includes\<close>: \<open>k\<close> occurs in \<open>s\<close> as a contiguous run.\<close>

fun startsWith :: "string \<Rightarrow> string \<Rightarrow> bool" where
  "startsWith s [] = True"
| "startsWith [] (k # ks) = False"
| "startsWith (c # cs) (k # ks) = (c = k \<and> startsWith cs ks)"

fun includes_str :: "string \<Rightarrow> string \<Rightarrow> bool" where
  "includes_str [] k = (k = [])"
| "includes_str (c # cs) k = (startsWith (c # cs) k \<or> includes_str cs k)"

text \<open>
  \<open>String.prototype.toLowerCase\<close> on Latin-1 code units: \<open>A\<close>-\<open>Z\<close> and the accented
  capitals \<open>0xC0\<close>-\<open>0xDE\<close> (the multiplication sign \<open>0xD7\<close> apart) move up by 32.
\<close>

definition toLowerCase_char :: "char \<Rightarrow> char" where
  "toLowerCase_char c =
     (let n = (of_char c :: nat)
      in if (65 \<le> n \<and> n \<le> 90) \<or> (192 \<le> n \<and> n \<le> 222 \<and> n \<noteq> 215)
         then char_of (n + 32) else c)"

definition toLowerCase :: "string \<Rightarrow> string" where
  "toLowerCase s = map toLowerCase_char s"

text \<open>
  \<open>String.prototype.trim\<close>: the white space and line terminators of ECMAScript that are
  Latin-1 code units are tab, line feed, vertical tab, form feed, carriage return, space
  and the no-break space \<open>0xA0\<close>.
\<close>

definition isWhiteSpace :: "char \<Rightarrow> bool" where
  "isWhiteSpace c = ((of_char c :: nat) \<in> {9, 10, 11, 12, 13, 32, 160})"

definition trim :: "string \<Rightarrow> string" where
  "trim s = rev (dropWhile isWhiteSpace (rev (dropWhile isWhiteSpace s)))"

text \<open>\<open>String.prototype.split\<close> with a one-character separator.\<close>

fun split_on :: "char \<Rightarrow> string \<Rightarrow> string list" where
  "split_on sep [] = [[]]"
| "split_on sep (c # cs) =
     (if c = sep then [] # split_on sep cs
      else (case split_on sep cs of
              [] \<Rightarrow> [[c]]
            | w # ws \<Rightarrow> (c # w) # ws))"

section \<open>types.ts\<close>

datatype MessageRole = USER | MODEL | SYSTEM

record GroundingUrl =
  title :: string
  uri :: string

record ChatMessage =
  role :: MessageRole
  msg_text :: string
  timestamp :: int
  isError :: "bool option"
  groundingUrls :: "GroundingUrl list option"

record GenerationState =
  isGenerating :: bool
  progress :: string

section \<open>The gateway: requests and responses of \<open>ai.models.generateContent\<close>\<close>

record InlineData =
  data :: "string option"
  mimeType :: string

datatype Part = InlineDataPart InlineData | TextPart string

datatype Modality = IMAGE

datatype Tool = GoogleSearch

record GenerateContentParameters =
  model :: string
  contents_parts :: "Part list"
  responseModalities :: "Modality list option"
  tools :: "Tool list option"
  systemInstruction :: "string option"

text \<open>
  The fields of a response that the source reads: \<open>response.text\<close>,
  \<open>candidates?.[0]?.content?.parts?.[0]?.inlineData\<close> and
  \<open>candidates?.[0]?.groundingMetadata?.groundingChunks[i].web\<close>.
\<close>

record Blob =
  blob_data :: string

record ResponsePart =
  part_inlineData :: "Blob option"

record Web =
  web_uri :: "string option"
  web_title :: "string option"

record GroundingChunk =
  web :: "Web option"

record Candidate =
  content_parts :: "ResponsePart list option"
  groundingChunks :: "GroundingChunk list option"

record GenerateContentResponse =
  candidates :: "Candidate list option"
  response_text :: "string option"

text \<open>A thrown JavaScript \<open>Error\<close>, with its message.\<close>

datatype js_error = Error string

text \<open>
  The remote model is outside the program: it is a parameter, a function from the request
  to the rejection or the response of the awaited call.
\<close>

type_synonym backend = "GenerateContentParameters \<Rightarrow> js_error + GenerateContentResponse"

section \<open>services/geminiService.ts\<close>

definition fileToGenerativePart :: "string option \<Rightarrow> string \<Rightarrow> Part" where
  "fileToGenerativePart base64Data mime =
     InlineDataPart \<lparr>data = base64Data, mimeType = mime\<rparr>"

text \<open>The request that \<open>generateEyewearImage\<close> builds before the awaited call.\<close>

definition generateEyewearImage_request ::
  "string option \<Rightarrow> string \<Rightarrow> string option \<Rightarrow> GenerateContentParameters" where
  "generateEyewearImage_request baseImageBase64 prompt referenceImageBase64 =
     (let parts0 = [fileToGenerativePart baseImageBase64 ''image/jpeg''];
          parts1 = (if truthy referenceImageBase64
                    then parts0 @ [fileToGenerativePart referenceImageBase64 ''image/jpeg'']
                    else parts0);
          finalPrompt =
            (if truthy referenceImageBase64
             then ''Using the first image as the base and the second image as a reference for the eyewear style, ''
                  @ prompt
                  @ ''. Ensure the glasses fit the face naturally with correct perspective, lighting, and shadows. High quality, photorealistic.''
             else ''Edit the image to: '' @ prompt
                  @ ''. Ensure photorealistic results, correct lighting, and natural fit on the face. High resolution.'')
      in \<lparr>model = ''gemini-2.5-flash-image'',
          contents_parts = parts1 @ [TextPart finalPrompt],
          responseModalities = Some [IMAGE],
          tools = None,
          systemInstruction = None\<rparr>)"

text \<open>\<open>response.candidates?.[0]?.content?.parts?.[0]\<close>.\<close>

definition generatedPart :: "GenerateContentResponse \<Rightarrow> ResponsePart option" where
  "generatedPart response =
     (case candidates response of
        None \<Rightarrow> None
      | Some [] \<Rightarrow> None
      | Some (c # _) \<Rightarrow>
          (case content_parts c of
             None \<Rightarrow> None
           | Some [] \<Rightarrow> None
           | Some (p # _) \<Rightarrow> Some p))"

definition generateEyewearImage ::
  "backend \<Rightarrow> string option \<Rightarrow> string \<Rightarrow> string option \<Rightarrow> js_error + string" where
  "generateEyewearImage ai baseImageBase64 prompt referenceImageBase64 =
     (case ai (generateEyewearImage_request baseImageBase64 prompt referenceImageBase64) of
        Inl e \<Rightarrow> Inl e
      | Inr response \<Rightarrow>
          (case generatedPart response of
             None \<Rightarrow> Inl (Error ''No image generated from the model.'')
           | Some p \<Rightarrow>
               (case part_inlineData p of
                  None \<Rightarrow> Inl (Error ''No image generated from the model.'')
                | Some b \<Rightarrow> Inr (blob_data b))))"

text \<open>
  The request that \<open>chatWithStylist\<close> builds.  The parameter \<open>history\<close> is received and
  not read.
\<close>

definition chatWithStylist_request ::
  "string \<Rightarrow> string option \<Rightarrow> ChatMessage list \<Rightarrow> GenerateContentParameters" where
  "chatWithStylist_request message currentImageBase64 history =
     (let parts0 =
            (if truthy currentImageBase64
             then [fileToGenerativePart currentImageBase64 ''image/jpeg'',
                   TextPart ''This is the current image of the user wearing glasses. Focus on the glasses style, shape, color, and material.'']
             else [])
      in \<lparr>model = ''gemini-3-pro-preview'',
          contents_parts = parts0 @ [TextPart message],
          responseModalities = None,
          tools = Some [GoogleSearch],
          systemInstruction = Some ''You are an expert optical stylist and optometrist assistant. You help users find the perfect glasses. When asked to find similar products or shop, analyze the visual details of the eyewear in the image provided (frame shape, rim thickness, color, material) and use Google Search to find real, purchasable products that are very similar. Provide direct shopping links. Be concise, helpful, and fashion-forward.''\<rparr>)"

record StylistResponse =
  reply_text :: string
  reply_groundingUrls :: "GroundingUrl list"

text \<open>The filter and the map over the grounding chunks.\<close>

fun chunk_url :: "GroundingChunk \<Rightarrow> GroundingUrl option" where
  "chunk_url chunk =
     (case web chunk of
        None \<Rightarrow> None
      | Some w \<Rightarrow>
          (case (web_uri w, web_title w) of
             (Some u, Some t) \<Rightarrow>
               (if u \<noteq> [] \<and> t \<noteq> [] then Some \<lparr>title = t, uri = u\<rparr> else None)
           | _ \<Rightarrow> None))"

definition chatWithStylist ::
  "backend \<Rightarrow> string \<Rightarrow> string option \<Rightarrow> ChatMessage list \<Rightarrow> js_error + StylistResponse" where
  "chatWithStylist ai message currentImageBase64 history =
     (case ai (chatWithStylist_request message currentImageBase64 history) of
        Inl e \<Rightarrow> Inl e
      | Inr response \<Rightarrow>
          (let txt = (if truthy (response_text response)
                      then (case response_text response of Some t \<Rightarrow> t | None \<Rightarrow> [])
                      else ''I couldn't generate a text response.'');
               chunks = (case candidates response of
                           None \<Rightarrow> []
                         | Some [] \<Rightarrow> []
                         | Some (c # _) \<Rightarrow>
                             (case groundingChunks c of None \<Rightarrow> [] | Some gs \<Rightarrow> gs))
           in Inr \<lparr>reply_text = txt,
                   reply_groundingUrls = List.map_filter chunk_url chunks\<rparr>))"

datatype Intent = EDIT_IMAGE | CHAT

definition visualKeywords :: "string list" where
  "visualKeywords =
     [''change'', ''make'', ''add'', ''remove'', ''wear'', ''try'', ''color'', ''style'', ''shape'',
      ''rim'', ''lens'', ''thinner'', ''thicker'', ''bigger'', ''smaller'', ''metal'', ''plastic'',
      ''gold'', ''silver'', ''black'', ''blue'', ''red'', ''green'', ''tortoise'', ''transparent'',
      ''generate'', ''create'', ''visualize'']"

definition detectIntent :: "string \<Rightarrow> Intent" where
  "detectIntent message =
     (let lowerMsg = toLowerCase message
      in if includes_str lowerMsg ''buy'' \<or> includes_str lowerMsg ''link'' \<or> includes_str lowerMsg ''where''
            \<or> includes_str lowerMsg ''cost'' \<or> includes_str lowerMsg ''price'' \<or> includes_str lowerMsg ''brand''
            \<or> includes_str lowerMsg ''shop'' \<or> includes_str lowerMsg ''find'' \<or> includes_str lowerMsg ''similar''
         then CHAT
         else if list_ex (\<lambda>k. includes_str lowerMsg k) visualKeywords
         then EDIT_IMAGE
         else CHAT)"

section \<open>App.tsx: the session state and its handlers\<close>

text \<open>
  The \<open>useState\<close> cells of the component.  \<open>userImage\<close> is the user's photo (the base
  image), \<open>generatedImage\<close> the latest synthesized look, \<open>referenceImage\<close> the uploaded
  picture of glasses; all three hold data URLs.
\<close>

record AppState =
  userImage :: "string option"
  generatedImage :: "string option"
  referenceImage :: "string option"
  chatHistory :: "ChatMessage list"
  inputMessage :: string
  generationState :: GenerationState

definition initialState :: AppState where
  "initialState =
     \<lparr>userImage = None, generatedImage = None, referenceImage = None,
      chatHistory = [], inputMessage = [],
      generationState = \<lparr>isGenerating = False, progress = []\<rparr>\<rparr>"

text \<open>
  \<open>handleUserImageUpload\<close>; the argument \<open>now\<close> is the reading of \<open>Date.now()\<close>.
\<close>

definition handleUserImageUpload :: "int \<Rightarrow> AppState \<Rightarrow> string \<Rightarrow> AppState" where
  "handleUserImageUpload now st base64 =
     st\<lparr>userImage := Some base64\<rparr>
       \<lparr>generatedImage := None\<rparr>
       \<lparr>chatHistory :=
          [\<lparr>role = MODEL,
            msg_text = ''Great! I've got your photo. Choose a style below, upload a reference image of glasses you like, or just tell me what to try on!'',
            timestamp = now, isError = None, groundingUrls = None\<rparr>]\<rparr>"

text \<open>\<open>dataUrl.split(',')[1]\<close>: \<open>undefined\<close> when the data URL has no comma.\<close>

definition cleanBase64 :: "string \<Rightarrow> string option" where
  "cleanBase64 dataUrl =
     (case split_on CHR '','' dataUrl of
        _ # payload # _ \<Rightarrow> Some payload
      | _ \<Rightarrow> None)"

text \<open>\<open>const currentRefImage = overrideRefImage || referenceImage\<close>.\<close>

definition currentRefImage :: "AppState \<Rightarrow> string option \<Rightarrow> string option" where
  "currentRefImage snap overrideRefImage = js_or overrideRefImage (referenceImage snap)"

text \<open>\<open>const intent = currentRefImage ? 'EDIT_IMAGE' : detectIntent(text)\<close>.\<close>

definition intent :: "AppState \<Rightarrow> string \<Rightarrow> string option \<Rightarrow> Intent" where
  "intent snap txt overrideRefImage =
     (if truthy (currentRefImage snap overrideRefImage) then EDIT_IMAGE else detectIntent txt)"

text \<open>
  The other locals of \<open>handleSendMessage\<close>.  \<open>text\<close> is the first argument, or
  \<open>inputMessage\<close> when the call passes none (\<open>textArg = None\<close>).  \<open>cleanBase64\<close> is applied
  to images the handler has found truthy, so \<open>Option.bind\<close> only unwraps them.
\<close>

definition messageText :: "AppState \<Rightarrow> string option \<Rightarrow> string" where
  "messageText snap textArg = (case textArg of None \<Rightarrow> inputMessage snap | Some t \<Rightarrow> t)"

definition rawUserImage :: "AppState \<Rightarrow> string option" where
  "rawUserImage snap = Option.bind (userImage snap) cleanBase64"

definition rawRefImage :: "AppState \<Rightarrow> string option \<Rightarrow> string option" where
  "rawRefImage snap overrideRefImage =
     (if truthy (currentRefImage snap overrideRefImage)
      then Option.bind (currentRefImage snap overrideRefImage) cleanBase64
      else None)"

definition currentContextImage :: "AppState \<Rightarrow> string option" where
  "currentContextImage snap =
     (if truthy (generatedImage snap)
      then Option.bind (generatedImage snap) cleanBase64
      else Option.bind (userImage snap) cleanBase64)"

text \<open>The \<open>catch\<close> and \<open>finally\<close> clauses of \<open>handleSendMessage\<close>.\<close>

definition catch_clause :: "int \<Rightarrow> AppState \<Rightarrow> AppState" where
  "catch_clause now st =
     st\<lparr>chatHistory := chatHistory st @
          [\<lparr>role = MODEL, msg_text = ''Sorry, something went wrong. Please try again.'',
            timestamp = now, isError = Some True, groundingUrls = None\<rparr>]\<rparr>"

definition finally_clause :: "AppState \<Rightarrow> AppState" where
  "finally_clause st = st\<lparr>generationState := \<lparr>isGenerating = False, progress = []\<rparr>\<rparr>"

text \<open>
  \<open>handleSendMessage\<close>, run from its call to the end of its \<open>finally\<close> clause.

  \<^item> \<open>ai\<close> is the remote model; \<open>t0\<close> and \<open>t1\<close> are the two readings of \<open>Date.now()\<close>
    (every path that reads the clock reads it for the USER turn and for one MODEL turn).
  \<^item> \<open>snap\<close> is the state the handler's closure was created with: the handler reads
    \<open>userImage\<close>, \<open>generatedImage\<close>, \<open>referenceImage\<close>, \<open>chatHistory\<close> and \<open>inputMessage\<close>
    from it.  \<open>st\<close> is the state the setters act on; \<open>setChatHistory(prev => ...)\<close> appends
    to the history of \<open>st\<close>.
  \<^item> The result is the state after the handler and the requests it sent to the remote
    model, in order.
\<close>

definition handleSendMessage_in ::
  "backend \<Rightarrow> int \<Rightarrow> int \<Rightarrow> AppState \<Rightarrow> AppState \<Rightarrow> string option \<Rightarrow> string option
     \<Rightarrow> AppState \<times> GenerateContentParameters list" where
  "handleSendMessage_in ai t0 t1 snap st textArg overrideRefImage =
     (let txt = messageText snap textArg
      in if trim txt = [] \<and> \<not> truthy overrideRefImage then (st, [])
         else
           let userMsg = \<lparr>role = USER, msg_text = txt, timestamp = t0,
                          isError = None, groundingUrls = None\<rparr>;
               st1 = st\<lparr>chatHistory := chatHistory st @ [userMsg]\<rparr>\<lparr>inputMessage := []\<rparr>
           in if \<not> truthy (userImage snap)
              then (st1\<lparr>chatHistory := chatHistory st1 @
                          [\<lparr>role = MODEL, msg_text = ''Please upload a photo of yourself first!'',
                            timestamp = t1, isError = None, groundingUrls = None\<rparr>]\<rparr>, [])
              else
                let st2 = st1\<lparr>generationState :=
                                \<lparr>isGenerating = True, progress = ''Thinking...''\<rparr>\<rparr>
                in if intent snap txt overrideRefImage = EDIT_IMAGE
                   then
                     let st3 = st2\<lparr>generationState :=
                                     \<lparr>isGenerating = True,
                                      progress = ''Generating your new look... (using Gemini 2.5 Flash Image)''\<rparr>\<rparr>
                     in (case generateEyewearImage ai (rawUserImage snap) txt
                                (rawRefImage snap overrideRefImage) of
                           Inr newImageBase64 \<Rightarrow>
                             (let st4 = st3\<lparr>generatedImage :=
                                              Some (''data:image/jpeg;base64,'' @ newImageBase64)\<rparr>
                              in finally_clause
                                   (st4\<lparr>chatHistory := chatHistory st4 @
                                          [\<lparr>role = MODEL,
                                            msg_text =
                                              (if truthy (currentRefImage snap overrideRefImage)
                                               then ''I've placed the glasses from your reference image onto your face. How do they fit?''
                                               else ''Here is the updated look based on your request. Use the slider to compare!''),
                                            timestamp = t1, isError = None,
                                            groundingUrls = None\<rparr>]\<rparr>))
                         | Inl e \<Rightarrow> finally_clause (catch_clause t1 st3),
                         [generateEyewearImage_request (rawUserImage snap) txt
                            (rawRefImage snap overrideRefImage)])
                   else
                     let st3 = st2\<lparr>generationState :=
                                     \<lparr>isGenerating = True,
                                      progress = ''Consulting the optical expert... (using Gemini 3 Pro)''\<rparr>\<rparr>
                     in (case chatWithStylist ai txt (currentContextImage snap) (chatHistory snap) of
                           Inr response \<Rightarrow>
                             finally_clause
                               (st3\<lparr>chatHistory := chatHistory st3 @
                                      [\<lparr>role = MODEL, msg_text = reply_text response,
                                        timestamp = t1, isError = None,
                                        groundingUrls = Some (reply_groundingUrls response)\<rparr>]\<rparr>)
                         | Inl e \<Rightarrow> finally_clause (catch_clause t1 st3),
                         [chatWithStylist_request txt (currentContextImage snap)
                            (chatHistory snap)]))"

text \<open>A call of the handler of the current render: the closure holds the current state.\<close>

definition handleSendMessage ::
  "backend \<Rightarrow> int \<Rightarrow> int \<Rightarrow> AppState \<Rightarrow> string option \<Rightarrow> string option
     \<Rightarrow> AppState \<times> GenerateContentParameters list" where
  "handleSendMessage ai t0 t1 st textArg overrideRefImage =
     handleSendMessage_in ai t0 t1 st st textArg overrideRefImage"

text \<open>
  \<open>handleReferenceImageUpload\<close>: \<open>setReferenceImage(base64)\<close>, then the handler of the same
  render, whose closure still holds the state before the setter.
\<close>

definition handleReferenceImageUpload ::
  "backend \<Rightarrow> int \<Rightarrow> int \<Rightarrow> AppState \<Rightarrow> string
     \<Rightarrow> AppState \<times> GenerateContentParameters list" where
  "handleReferenceImageUpload ai t0 t1 st base64 =
     handleSendMessage_in ai t0 t1 st (st\<lparr>referenceImage := Some base64\<rparr>)
       (Some ''I've uploaded a picture of some glasses. Can I try them on?'') (Some base64)"

definition handleShopLook ::
  "backend \<Rightarrow> int \<Rightarrow> int \<Rightarrow> AppState \<Rightarrow> AppState \<times> GenerateContentParameters list" where
  "handleShopLook ai t0 t1 st =
     handleSendMessage ai t0 t1 st
       (Some ''Find online shopping links for glasses that look exactly like the ones in this photo.'')
       None"

text \<open>
  The two remove buttons of the sidebar:
  \<open>onClick={() => { setUserImage(null); setGeneratedImage(null); }}\<close> on the photo and
  \<open>onClick={() => setReferenceImage(null)}\<close> on the reference image.
\<close>

definition removeUserImage :: "AppState \<Rightarrow> AppState" where
  "removeUserImage st = st\<lparr>userImage := None\<rparr>\<lparr>generatedImage := None\<rparr>"

definition removeReferenceImage :: "AppState \<Rightarrow> AppState" where
  "removeReferenceImage st = st\<lparr>referenceImage := None\<rparr>"

section \<open>Concrete backends and sessions\<close>

text \<open>A backend whose call is rejected, one that returns an image, one that returns a response without candidates, and one that answers a consultation.\<close>

definition failingBackend :: backend where
  "failingBackend req = Inl (Error ''fetch failed'')"

definition imageBackend :: backend where
  "imageBackend req =
     Inr \<lparr>candidates =
            Some [\<lparr>content_parts = Some [\<lparr>part_inlineData = Some \<lparr>blob_data = ''NEW''\<rparr>\<rparr>],
                   groundingChunks = None\<rparr>],
          response_text = None\<rparr>"

definition emptyBackend :: backend where
  "emptyBackend req = Inr \<lparr>candidates = None, response_text = None\<rparr>"

definition chatBackend :: backend where
  "chatBackend req =
     Inr \<lparr>candidates =
            Some [\<lparr>content_parts = None,
                   groundingChunks =
                     Some [\<lparr>web = Some \<lparr>web_uri = Some ''https://shop.example/aviator'',
                                          web_title = Some ''Aviator''\<rparr>\<rparr>,
                           \<lparr>web = Some \<lparr>web_uri = None, web_title = Some ''No link''\<rparr>\<rparr>]\<rparr>],
          response_text = Some ''Try these aviators.''\<rparr>"

text \<open>
  A session after the photo upload, after one successful synthesis, and after a reference
  image upload.
\<close>

definition photoState :: AppState where
  "photoState = handleUserImageUpload 0 initialState ''data:image/jpeg;base64,BASE''"

definition lookState :: AppState where
  "lookState = fst (handleSendMessage imageBackend 1 2 photoState (Some ''make the frames red'') None)"

definition refState :: AppState where
  "refState = fst (handleReferenceImageUpload imageBackend 1 2 photoState ''data:image/jpeg;base64,REF'')"

section \<open>Facts about the string helpers\<close>

lemma dropWhile_all: "(\<forall>x\<in>set (dropWhile P xs). P x) \<longleftrightarrow> (\<forall>x\<in>set xs. P x)"
  by (induction xs) auto

lemma trim_empty_iff: "trim s = [] \<longleftrightarrow> list_all isWhiteSpace s"
  by (simp add: trim_def dropWhile_all list_all_iff)

lemma split_on_no_sep: "sep \<notin> set s \<Longrightarrow> split_on sep s = [s]"
  by (induction s) auto

lemma cleanBase64_dataUrl:
  "CHR '','' \<notin> set b \<Longrightarrow> cleanBase64 (''data:image/jpeg;base64,'' @ b) = Some b"
  by (simp add: cleanBase64_def split_on_no_sep)

lemmas session_defs =
  lookState_def refState_def photoState_def initialState_def handleUserImageUpload_def
  handleSendMessage_def handleSendMessage_in_def handleReferenceImageUpload_def
  messageText_def rawUserImage_def rawRefImage_def currentContextImage_def
  currentRefImage_def intent_def js_or_def cleanBase64_def
  generateEyewearImage_def generateEyewearImage_request_def generatedPart_def
  chatWithStylist_def chatWithStylist_request_def fileToGenerativePart_def
  detectIntent_def toLowerCase_def toLowerCase_char_def visualKeywords_def
  trim_def isWhiteSpace_def finally_clause_def catch_clause_def
  imageBackend_def failingBackend_def chatBackend_def emptyBackend_def Let_def

section \<open>The blank-input guard\<close>

text \<open>
  Claim C10.  A message whose text is empty or consists of white space only, sent with no
  reference image in that turn, changes nothing: the handler returns the state it was
  given (no USER turn, no MODEL turn, the look and the progress status untouched) and sends
  no request.
\<close>

theorem blank_message_is_noop:
  assumes "list_all isWhiteSpace (messageText snap textArg)"
      and "\<not> truthy overrideRefImage"
  shows "handleSendMessage_in ai t0 t1 snap st textArg overrideRefImage = (st, [])"
  using assms by (simp add: handleSendMessage_in_def trim_empty_iff)

theorem blank_message_is_noop_witness:
  "list_all isWhiteSpace (messageText initialState (Some '' ''))
   \<and> \<not> truthy None
   \<and> handleSendMessage_in imageBackend 3 4 initialState initialState (Some '' '') None =
       (initialState, [])"
proof -
  have h1: "list_all isWhiteSpace (messageText initialState (Some '' ''))"
    by (simp add: messageText_def isWhiteSpace_def)
  have h2: "\<not> truthy None" by simp
  from blank_message_is_noop [OF h1 h2] h1 h2 show ?thesis by blast
qed

section \<open>Which image an edit starts from\<close>

lemma requests_of_edit_turn:
  assumes "\<not> list_all isWhiteSpace (messageText snap textArg) \<or> truthy overrideRefImage"
      and "truthy (userImage snap)"
      and "intent snap (messageText snap textArg) overrideRefImage = EDIT_IMAGE"
  shows "snd (handleSendMessage_in ai t0 t1 snap st textArg overrideRefImage) =
           [generateEyewearImage_request (rawUserImage snap) (messageText snap textArg)
              (rawRefImage snap overrideRefImage)]"
  using assms by (simp add: handleSendMessage_in_def trim_empty_iff Let_def)

lemma first_part_of_edit_request:
  "hd (contents_parts (generateEyewearImage_request x p r)) =
     InlineDataPart \<lparr>data = x, mimeType = ''image/jpeg''\<rparr>"
  by (simp add: generateEyewearImage_request_def fileToGenerativePart_def Let_def)

lemma nonblank_make_the_frames_blue:
  "\<not> list_all isWhiteSpace (messageText lookState (Some ''make the frames blue''))"
  by (simp add: messageText_def isWhiteSpace_def)

lemma lookState_has_photo: "truthy (userImage lookState)"
  by (simp add: session_defs)

lemma lookState_blue_is_edit:
  "intent lookState (messageText lookState (Some ''make the frames blue'')) None = EDIT_IMAGE"
  by (simp add: session_defs)

text \<open>
  Claim C1, as stated, read at a session that has had one successful synthesis: the
  present look is \<open>NEW\<close>, the next edit turn still attaches the original photo \<open>BASE\<close> as
  its first and only image.
\<close>

theorem edit_base_is_current_image_counterexample:
  "intent lookState ''make the frames blue'' None = EDIT_IMAGE
   \<and> generatedImage lookState = Some ''data:image/jpeg;base64,NEW''
   \<and> currentContextImage lookState = Some ''NEW''
   \<and> map contents_parts
        (snd (handleSendMessage imageBackend 3 4 lookState (Some ''make the frames blue'') None)) =
       [[InlineDataPart \<lparr>data = Some ''BASE'', mimeType = ''image/jpeg''\<rparr>,
         TextPart ''Edit the image to: make the frames blue. Ensure photorealistic results, correct lighting, and natural fit on the face. High resolution.'']]"
  by (simp add: session_defs)

text \<open>
  Claim C1, amended.  For every accepted turn with a photo whose intent is \<open>EDIT_IMAGE\<close>,
  the handler sends exactly one request, the synthesis request, and the first image of
  that request is the payload of \<open>userImage\<close> (the base image), whatever \<open>generatedImage\<close>
  holds.
\<close>

theorem edit_request_attaches_base_image:
  assumes "\<not> list_all isWhiteSpace (messageText snap textArg) \<or> truthy overrideRefImage"
      and "truthy (userImage snap)"
      and "intent snap (messageText snap textArg) overrideRefImage = EDIT_IMAGE"
  shows "snd (handleSendMessage_in ai t0 t1 snap st textArg overrideRefImage) =
           [generateEyewearImage_request (rawUserImage snap) (messageText snap textArg)
              (rawRefImage snap overrideRefImage)]
       \<and> hd (contents_parts
              (generateEyewearImage_request (rawUserImage snap) (messageText snap textArg)
                 (rawRefImage snap overrideRefImage))) =
           InlineDataPart \<lparr>data = Option.bind (userImage snap) cleanBase64,
                           mimeType = ''image/jpeg''\<rparr>"
  using requests_of_edit_turn [OF assms] first_part_of_edit_request
  by (simp add: rawUserImage_def)

theorem edit_request_attaches_base_image_witness:
  "\<not> list_all isWhiteSpace (messageText lookState (Some ''make the frames blue''))
   \<and> truthy (userImage lookState)
   \<and> intent lookState (messageText lookState (Some ''make the frames blue'')) None = EDIT_IMAGE
   \<and> snd (handleSendMessage_in imageBackend 3 4 lookState lookState
             (Some ''make the frames blue'') None) =
        [generateEyewearImage_request (rawUserImage lookState)
           (messageText lookState (Some ''make the frames blue'')) (rawRefImage lookState None)]
   \<and> hd (contents_parts
          (generateEyewearImage_request (rawUserImage lookState)
             (messageText lookState (Some ''make the frames blue'')) (rawRefImage lookState None))) =
        InlineDataPart \<lparr>data = Option.bind (userImage lookState) cleanBase64,
                        mimeType = ''image/jpeg''\<rparr>"
proof -
  note h1 = nonblank_make_the_frames_blue
  note h2 = lookState_has_photo
  note h3 = lookState_blue_is_edit
  note c = edit_request_attaches_base_image [OF disjI1 [OF h1] h2 h3, of imageBackend 3 4 lookState]
  show ?thesis by (rule conjI [OF h1 conjI [OF h2 conjI [OF h3 c]]])
qed

section \<open>How long a reference image lasts\<close>

lemma referenceImage_handleSendMessage_in:
  "referenceImage (fst (handleSendMessage_in ai t0 t1 snap st textArg overrideRefImage)) =
     referenceImage st"
  by (simp add: handleSendMessage_in_def Let_def finally_clause_def catch_clause_def
      split: sum.splits)

lemma referenceImage_handleReferenceImageUpload:
  "referenceImage (fst (handleReferenceImageUpload ai t0 t1 st base64)) = Some base64"
  by (simp add: handleReferenceImageUpload_def referenceImage_handleSendMessage_in)

lemma requests_with_stored_reference:
  assumes "truthy (referenceImage st)" and "\<not> truthy overrideRefImage"
      and "truthy (userImage st)" and "\<not> list_all isWhiteSpace (messageText st textArg)"
  shows "snd (handleSendMessage ai t0 t1 st textArg overrideRefImage) =
           [generateEyewearImage_request (rawUserImage st) (messageText st textArg)
              (Option.bind (referenceImage st) cleanBase64)]"
  using assms
  by (simp add: handleSendMessage_def handleSendMessage_in_def trim_empty_iff Let_def
        intent_def currentRefImage_def js_or_def rawRefImage_def)

lemma refState_fields:
  "userImage refState = Some ''data:image/jpeg;base64,BASE''"
  "referenceImage refState = Some ''data:image/jpeg;base64,REF''"
  "inputMessage refState = []"
  by (simp_all add: session_defs)

lemma contents_parts_of_edit_request:
  "contents_parts (generateEyewearImage_request x p r) =
     (if truthy r
      then [InlineDataPart \<lparr>data = x, mimeType = ''image/jpeg''\<rparr>,
            InlineDataPart \<lparr>data = r, mimeType = ''image/jpeg''\<rparr>,
            TextPart (''Using the first image as the base and the second image as a reference for the eyewear style, ''
                      @ p
                      @ ''. Ensure the glasses fit the face naturally with correct perspective, lighting, and shadows. High quality, photorealistic.'')]
      else [InlineDataPart \<lparr>data = x, mimeType = ''image/jpeg''\<rparr>,
            TextPart (''Edit the image to: '' @ p
                      @ ''. Ensure photorealistic results, correct lighting, and natural fit on the face. High resolution.'')])"
  by (simp add: generateEyewearImage_request_def fileToGenerativePart_def Let_def)

lemma refState_nonblank_bigger:
  "\<not> list_all isWhiteSpace (messageText refState (Some ''make them bigger''))"
  by (simp add: messageText_def isWhiteSpace_def)

lemma bigger_is_edit_text:
  "detectIntent (messageText refState (Some ''make them bigger'')) = EDIT_IMAGE"
  by (simp add: messageText_def detectIntent_def toLowerCase_def toLowerCase_char_def
        visualKeywords_def)

text \<open>
  Claim C3, as stated, read at a session in which the reference image \<open>REF\<close> was uploaded
  and attached to the request of the upload turn.  The next typed message is an edit
  request by its own words (\<open>detectIntent\<close> gives \<open>EDIT_IMAGE\<close>) and is sent without any
  reference image; the request it composes attaches \<open>REF\<close> again.
\<close>

theorem reference_image_transient_counterexample:
  "map contents_parts
     (snd (handleReferenceImageUpload imageBackend 1 2 photoState ''data:image/jpeg;base64,REF'')) =
     [[InlineDataPart \<lparr>data = Some ''BASE'', mimeType = ''image/jpeg''\<rparr>,
       InlineDataPart \<lparr>data = Some ''REF'', mimeType = ''image/jpeg''\<rparr>,
       TextPart ''Using the first image as the base and the second image as a reference for the eyewear style, I've uploaded a picture of some glasses. Can I try them on?. Ensure the glasses fit the face naturally with correct perspective, lighting, and shadows. High quality, photorealistic.'']]
   \<and> detectIntent ''make them bigger'' = EDIT_IMAGE
   \<and> map contents_parts
       (snd (handleSendMessage imageBackend 3 4 refState (Some ''make them bigger'') None)) =
     [[InlineDataPart \<lparr>data = Some ''BASE'', mimeType = ''image/jpeg''\<rparr>,
       InlineDataPart \<lparr>data = Some ''REF'', mimeType = ''image/jpeg''\<rparr>,
       TextPart ''Using the first image as the base and the second image as a reference for the eyewear style, make them bigger. Ensure the glasses fit the face naturally with correct perspective, lighting, and shadows. High quality, photorealistic.'']]"
  by (simp add: session_defs)

text \<open>
  Claim C3, amended.  A reference image is stored by its upload and is not consumed by the
  request of that turn: no message turn changes \<open>referenceImage\<close>, only its remove button
  clears it.  While it is stored, every accepted later turn with a photo whose text
  \<open>detectIntent\<close> classifies as \<open>EDIT_IMAGE\<close>, sent without a reference image of its own,
  composes one synthesis request built from the stored reference image: when the payload of
  the stored image is non-empty the request is the photo, the reference and the
  with-reference instruction; when the payload is empty or missing the request is the
  photo and the plain instruction, with no reference attached.  Later turns whose text is
  not an edit request are outside this statement.
\<close>

theorem reference_image_persists:
  "referenceImage (fst (handleSendMessage_in ai t0 t1 snap st textArg overrideRefImage)) =
     referenceImage st
   \<and> referenceImage (fst (handleReferenceImageUpload ai t0 t1 st base64)) = Some base64
   \<and> referenceImage (removeReferenceImage st) = None
   \<and> (truthy (referenceImage st) \<and> \<not> truthy overrideRefImage \<and> truthy (userImage st)
        \<and> \<not> list_all isWhiteSpace (messageText st textArg)
        \<and> detectIntent (messageText st textArg) = EDIT_IMAGE \<longrightarrow>
        snd (handleSendMessage ai t0 t1 st textArg overrideRefImage) =
          [generateEyewearImage_request (rawUserImage st) (messageText st textArg)
             (Option.bind (referenceImage st) cleanBase64)]
        \<and> contents_parts
            (generateEyewearImage_request (rawUserImage st) (messageText st textArg)
               (Option.bind (referenceImage st) cleanBase64)) =
          (if truthy (Option.bind (referenceImage st) cleanBase64)
           then [InlineDataPart \<lparr>data = rawUserImage st, mimeType = ''image/jpeg''\<rparr>,
                 InlineDataPart \<lparr>data = Option.bind (referenceImage st) cleanBase64,
                                 mimeType = ''image/jpeg''\<rparr>,
                 TextPart (''Using the first image as the base and the second image as a reference for the eyewear style, ''
                           @ messageText st textArg
                           @ ''. Ensure the glasses fit the face naturally with correct perspective, lighting, and shadows. High quality, photorealistic.'')]
           else [InlineDataPart \<lparr>data = rawUserImage st, mimeType = ''image/jpeg''\<rparr>,
                 TextPart (''Edit the image to: '' @ messageText st textArg
                           @ ''. Ensure photorealistic results, correct lighting, and natural fit on the face. High resolution.'')]))"
proof (intro conjI impI)
  show "referenceImage (fst (handleSendMessage_in ai t0 t1 snap st textArg overrideRefImage)) =
          referenceImage st"
    by (rule referenceImage_handleSendMessage_in)
  show "referenceImage (fst (handleReferenceImageUpload ai t0 t1 st base64)) = Some base64"
    by (rule referenceImage_handleReferenceImageUpload)
  show "referenceImage (removeReferenceImage st) = None"
    by (simp add: removeReferenceImage_def)
next
  assume "truthy (referenceImage st) \<and> \<not> truthy overrideRefImage \<and> truthy (userImage st)
            \<and> \<not> list_all isWhiteSpace (messageText st textArg)
            \<and> detectIntent (messageText st textArg) = EDIT_IMAGE"
  then show "snd (handleSendMessage ai t0 t1 st textArg overrideRefImage) =
          [generateEyewearImage_request (rawUserImage st) (messageText st textArg)
             (Option.bind (referenceImage st) cleanBase64)]"
    using requests_with_stored_reference by blast
next
  show "contents_parts
            (generateEyewearImage_request (rawUserImage st) (messageText st textArg)
               (Option.bind (referenceImage st) cleanBase64)) =
          (if truthy (Option.bind (referenceImage st) cleanBase64)
           then [InlineDataPart \<lparr>data = rawUserImage st, mimeType = ''image/jpeg''\<rparr>,
                 InlineDataPart \<lparr>data = Option.bind (referenceImage st) cleanBase64,
                                 mimeType = ''image/jpeg''\<rparr>,
                 TextPart (''Using the first image as the base and the second image as a reference for the eyewear style, ''
                           @ messageText st textArg
                           @ ''. Ensure the glasses fit the face naturally with correct perspective, lighting, and shadows. High quality, photorealistic.'')]
           else [InlineDataPart \<lparr>data = rawUserImage st, mimeType = ''image/jpeg''\<rparr>,
                 TextPart (''Edit the image to: '' @ messageText st textArg
                           @ ''. Ensure photorealistic results, correct lighting, and natural fit on the face. High resolution.'')])"
    by (rule contents_parts_of_edit_request)
qed

theorem reference_image_persists_witness:
  "truthy (referenceImage refState) \<and> \<not> truthy None \<and> truthy (userImage refState)
   \<and> \<not> list_all isWhiteSpace (messageText refState (Some ''make them bigger''))
   \<and> detectIntent (messageText refState (Some ''make them bigger'')) = EDIT_IMAGE
   \<and> snd (handleSendMessage imageBackend 3 4 refState (Some ''make them bigger'') None) =
       [generateEyewearImage_request (rawUserImage refState)
          (messageText refState (Some ''make them bigger''))
          (Option.bind (referenceImage refState) cleanBase64)]
   \<and> contents_parts
        (generateEyewearImage_request (rawUserImage refState)
           (messageText refState (Some ''make them bigger''))
           (Option.bind (referenceImage refState) cleanBase64)) =
       [InlineDataPart \<lparr>data = Some ''BASE'', mimeType = ''image/jpeg''\<rparr>,
        InlineDataPart \<lparr>data = Some ''REF'', mimeType = ''image/jpeg''\<rparr>,
        TextPart ''Using the first image as the base and the second image as a reference for the eyewear style, make them bigger. Ensure the glasses fit the face naturally with correct perspective, lighting, and shadows. High quality, photorealistic.'']"
proof -
  have h1: "truthy (referenceImage refState)" by (simp add: refState_fields)
  have h2: "\<not> truthy None" by simp
  have h3: "truthy (userImage refState)" by (simp add: refState_fields)
  note h4 = refState_nonblank_bigger
  note h5 = bigger_is_edit_text
  note t = reference_image_persists
             [where st = refState and textArg = "Some ''make them bigger''"
                and overrideRefImage = None and ai = imageBackend and ?t0.0 = 3 and ?t1.0 = 4]
  note c = t [THEN conjunct2, THEN conjunct2, THEN conjunct2, THEN mp,
              OF conjI [OF h1 conjI [OF h2 conjI [OF h3 conjI [OF h4 h5]]]]]
  note c1 = c [THEN conjunct1]
  have c2: "contents_parts
        (generateEyewearImage_request (rawUserImage refState)
           (messageText refState (Some ''make them bigger''))
           (Option.bind (referenceImage refState) cleanBase64)) =
       [InlineDataPart \<lparr>data = Some ''BASE'', mimeType = ''image/jpeg''\<rparr>,
        InlineDataPart \<lparr>data = Some ''REF'', mimeType = ''image/jpeg''\<rparr>,
        TextPart ''Using the first image as the base and the second image as a reference for the eyewear style, make them bigger. Ensure the glasses fit the face naturally with correct perspective, lighting, and shadows. High quality, photorealistic.'']"
    by (simp only: c [THEN conjunct2])
       (simp add: refState_fields rawUserImage_def messageText_def cleanBase64_def)
  show ?thesis
    by (rule conjI [OF h1 conjI [OF h2 conjI [OF h3 conjI [OF h4 conjI [OF h5 conjI [OF c1 c2]]]]]])
qed

section \<open>The intent of a turn\<close>

text \<open>
  Claim C4.  A text whose lower-cased form contains one of the commerce words and one of
  the visual words is classified \<open>CHAT\<close> (the consult route) by \<open>detectIntent\<close>, and,
  with no reference image in play, \<open>CHAT\<close> is the intent of the turn: the commerce test
  comes first.
\<close>

theorem commerce_precedence:
  assumes "list_ex (includes_str (toLowerCase message))
             [''buy'', ''link'', ''where'', ''cost'', ''price'', ''brand'', ''shop'', ''find'', ''similar'']"
      and "list_ex (includes_str (toLowerCase message)) visualKeywords"
      and "\<not> truthy (currentRefImage snap overrideRefImage)"
  shows "detectIntent message = CHAT \<and> intent snap message overrideRefImage = CHAT"
  using assms by (auto simp add: detectIntent_def intent_def)

theorem commerce_precedence_witness:
  "list_ex (includes_str (toLowerCase ''Find similar gold frames''))
     [''buy'', ''link'', ''where'', ''cost'', ''price'', ''brand'', ''shop'', ''find'', ''similar'']
   \<and> list_ex (includes_str (toLowerCase ''Find similar gold frames'')) visualKeywords
   \<and> \<not> truthy (currentRefImage photoState None)
   \<and> detectIntent ''Find similar gold frames'' = CHAT
   \<and> intent photoState ''Find similar gold frames'' None = CHAT"
proof -
  have h1: "list_ex (includes_str (toLowerCase ''Find similar gold frames''))
     [''buy'', ''link'', ''where'', ''cost'', ''price'', ''brand'', ''shop'', ''find'', ''similar'']"
    by (simp add: toLowerCase_def toLowerCase_char_def)
  have h2: "list_ex (includes_str (toLowerCase ''Find similar gold frames'')) visualKeywords"
    by (simp add: toLowerCase_def toLowerCase_char_def visualKeywords_def)
  have h3: "\<not> truthy (currentRefImage photoState None)"
    by (simp add: currentRefImage_def js_or_def photoState_def handleUserImageUpload_def
          initialState_def)
  note c = commerce_precedence [OF h1 h2 h3]
  show ?thesis by (rule conjI [OF h1 conjI [OF h2 conjI [OF h3 c]]])
qed

text \<open>
  Claim C5.  When the turn carries an explicit reference image (\<open>overrideRefImage\<close>), the
  intent is \<open>EDIT_IMAGE\<close> for every text, the empty text included, and the text plays no
  part in the choice; with a photo present the one request the turn sends is the synthesis
  request, with that reference image.
\<close>

theorem explicit_reference_forces_edit:
  assumes "truthy overrideRefImage"
  shows "intent snap message overrideRefImage = EDIT_IMAGE
     \<and> (truthy (userImage snap) \<longrightarrow>
          snd (handleSendMessage_in ai t0 t1 snap st textArg overrideRefImage) =
            [generateEyewearImage_request (rawUserImage snap) (messageText snap textArg)
               (Option.bind overrideRefImage cleanBase64)])"
  using assms
  by (simp add: handleSendMessage_in_def intent_def currentRefImage_def js_or_def
        rawRefImage_def Let_def)

theorem explicit_reference_forces_edit_witness:
  "truthy (Some ''data:image/jpeg;base64,REF'')
   \<and> intent photoState [] (Some ''data:image/jpeg;base64,REF'') = EDIT_IMAGE
   \<and> truthy (userImage photoState)
   \<and> snd (handleSendMessage_in imageBackend 1 2 photoState photoState (Some [])
            (Some ''data:image/jpeg;base64,REF'')) =
        [generateEyewearImage_request (rawUserImage photoState) (messageText photoState (Some []))
           (Option.bind (Some ''data:image/jpeg;base64,REF'') cleanBase64)]"
proof -
  have h1: "truthy (Some ''data:image/jpeg;base64,REF'')" by simp
  have h2: "truthy (userImage photoState)"
    by (simp add: photoState_def handleUserImageUpload_def)
  note t = explicit_reference_forces_edit
             [OF h1, where snap = photoState and message = "[]" and textArg = "Some []"
                and ai = imageBackend and ?t0.0 = 1 and ?t1.0 = 2 and st = photoState]
  note c1 = t [THEN conjunct1]
  note c2 = t [THEN conjunct2, THEN mp, OF h2]
  show ?thesis by (rule conjI [OF h1 conjI [OF c1 conjI [OF h2 c2]]])
qed

section \<open>Turns without a photo\<close>

text \<open>
  Claim C6, as stated, read at the empty text with no reference image and no photo: the
  handler returns at its first line, so no MODEL turn asks for a photo.
\<close>

theorem missing_photo_counterexample:
  "\<not> truthy (userImage initialState)
   \<and> handleSendMessage failingBackend 1 2 initialState (Some []) None = (initialState, [])
   \<and> chatHistory (fst (handleSendMessage failingBackend 1 2 initialState (Some []) None)) = []"
  by (simp add: session_defs)

text \<open>
  Claim C6, amended.  For every text and reference image that pass the blank-input guard
  (the text is not blank, or the turn carries a reference image), when the photo is unset
  the handler fails fast: it sends no request and never enters the in-flight status, and
  the failure is surfaced as one MODEL turn, appended after the USER turn, that asks the
  user for a photo; the three images are unchanged.  The \<open>isError\<close> flag of that MODEL
  turn is outside this statement.
\<close>

theorem missing_photo_turn:
  assumes "\<not> truthy (userImage snap)"
      and "\<not> list_all isWhiteSpace (messageText snap textArg) \<or> truthy overrideRefImage"
  shows "snd (handleSendMessage_in ai t0 t1 snap st textArg overrideRefImage) = []
       \<and> (\<exists>m. chatHistory (fst (handleSendMessage_in ai t0 t1 snap st textArg overrideRefImage)) =
                 chatHistory st @
                   [\<lparr>role = USER, msg_text = messageText snap textArg, timestamp = t0,
                     isError = None, groundingUrls = None\<rparr>, m]
               \<and> role m = MODEL
               \<and> msg_text m = ''Please upload a photo of yourself first!'')
       \<and> userImage (fst (handleSendMessage_in ai t0 t1 snap st textArg overrideRefImage)) =
           userImage st
       \<and> generatedImage (fst (handleSendMessage_in ai t0 t1 snap st textArg overrideRefImage)) =
           generatedImage st
       \<and> referenceImage (fst (handleSendMessage_in ai t0 t1 snap st textArg overrideRefImage)) =
           referenceImage st
       \<and> generationState (fst (handleSendMessage_in ai t0 t1 snap st textArg overrideRefImage)) =
           generationState st"
proof -
  have eq: "handleSendMessage_in ai t0 t1 snap st textArg overrideRefImage =
           (st\<lparr>chatHistory := chatHistory st @
                  [\<lparr>role = USER, msg_text = messageText snap textArg, timestamp = t0,
                    isError = None, groundingUrls = None\<rparr>,
                   \<lparr>role = MODEL, msg_text = ''Please upload a photo of yourself first!'',
                    timestamp = t1, isError = None, groundingUrls = None\<rparr>],
                inputMessage := []\<rparr>, [])"
    using assms by (auto simp add: handleSendMessage_in_def trim_empty_iff Let_def)
  show ?thesis by (simp only: eq) simp
qed

theorem missing_photo_turn_witness:
  "\<not> truthy (userImage initialState)
   \<and> \<not> list_all isWhiteSpace (messageText initialState (Some ''make the frames red''))
   \<and> snd (handleSendMessage_in failingBackend 1 2 initialState initialState
            (Some ''make the frames red'') None) = []
   \<and> (\<exists>m. chatHistory (fst (handleSendMessage_in failingBackend 1 2 initialState initialState
                              (Some ''make the frames red'') None)) =
             chatHistory initialState @
               [\<lparr>role = USER,
                 msg_text = messageText initialState (Some ''make the frames red''),
                 timestamp = 1, isError = None, groundingUrls = None\<rparr>, m]
           \<and> role m = MODEL
           \<and> msg_text m = ''Please upload a photo of yourself first!'')
   \<and> userImage (fst (handleSendMessage_in failingBackend 1 2 initialState initialState
                        (Some ''make the frames red'') None)) = userImage initialState
   \<and> generatedImage (fst (handleSendMessage_in failingBackend 1 2 initialState initialState
                        (Some ''make the frames red'') None)) = generatedImage initialState
   \<and> referenceImage (fst (handleSendMessage_in failingBackend 1 2 initialState initialState
                        (Some ''make the frames red'') None)) = referenceImage initialState
   \<and> generationState (fst (handleSendMessage_in failingBackend 1 2 initialState initialState
                        (Some ''make the frames red'') None)) = generationState initialState"
proof -
  have h1: "\<not> truthy (userImage initialState)" by (simp add: initialState_def)
  have h2: "\<not> list_all isWhiteSpace (messageText initialState (Some ''make the frames red''))"
    by (simp add: messageText_def isWhiteSpace_def)
  note c = missing_photo_turn [OF h1 disjI1 [OF h2], of failingBackend 1 2 initialState]
  show ?thesis by (rule conjI [OF h1 conjI [OF h2 c]])
qed

section \<open>The outcome of the gateway call\<close>

lemma rejected_call_rejects_consultation:
  "ai (chatWithStylist_request message img history) = Inl e \<Longrightarrow>
     chatWithStylist ai message img history = Inl e"
  by (simp add: chatWithStylist_def)

lemma rejected_call_rejects_synthesis:
  "ai (generateEyewearImage_request b p r) = Inl e \<Longrightarrow> generateEyewearImage ai b p r = Inl e"
  by (simp add: generateEyewearImage_def)

lemma no_candidates_rejects_synthesis:
  "ai (generateEyewearImage_request b p r) = Inr response \<Longrightarrow> candidates response = None \<Longrightarrow>
     generateEyewearImage ai b p r = Inl (Error ''No image generated from the model.'')"
  by (simp add: generateEyewearImage_def generatedPart_def)

text \<open>
  Claim C7.  When the gateway call of an accepted turn fails (the synthesis call of an
  edit turn or the consultation call of a chat turn returns an error), the three images of
  the look are what they were before the call, the transcript has grown by the USER turn
  and exactly one MODEL turn, which carries \<open>isError = true\<close>, and the in-flight status is
  released (\<open>isGenerating\<close> is false).
\<close>

theorem gateway_failure_keeps_look:
  assumes "\<not> list_all isWhiteSpace (messageText snap textArg) \<or> truthy overrideRefImage"
      and "truthy (userImage snap)"
      and "(intent snap (messageText snap textArg) overrideRefImage = EDIT_IMAGE
            \<and> generateEyewearImage ai (rawUserImage snap) (messageText snap textArg)
                  (rawRefImage snap overrideRefImage) = Inl e)
         \<or> (intent snap (messageText snap textArg) overrideRefImage = CHAT
            \<and> chatWithStylist ai (messageText snap textArg) (currentContextImage snap)
                  (chatHistory snap) = Inl e)"
  shows "userImage (fst (handleSendMessage_in ai t0 t1 snap st textArg overrideRefImage)) =
           userImage st
       \<and> generatedImage (fst (handleSendMessage_in ai t0 t1 snap st textArg overrideRefImage)) =
           generatedImage st
       \<and> referenceImage (fst (handleSendMessage_in ai t0 t1 snap st textArg overrideRefImage)) =
           referenceImage st
       \<and> chatHistory (fst (handleSendMessage_in ai t0 t1 snap st textArg overrideRefImage)) =
           chatHistory st @
             [\<lparr>role = USER, msg_text = messageText snap textArg, timestamp = t0,
               isError = None, groundingUrls = None\<rparr>,
              \<lparr>role = MODEL, msg_text = ''Sorry, something went wrong. Please try again.'',
               timestamp = t1, isError = Some True, groundingUrls = None\<rparr>]
       \<and> isGenerating
            (generationState (fst (handleSendMessage_in ai t0 t1 snap st textArg overrideRefImage))) =
           False"
proof -
  have "fst (handleSendMessage_in ai t0 t1 snap st textArg overrideRefImage) =
           st\<lparr>chatHistory := chatHistory st @
                  [\<lparr>role = USER, msg_text = messageText snap textArg, timestamp = t0,
                    isError = None, groundingUrls = None\<rparr>,
                   \<lparr>role = MODEL, msg_text = ''Sorry, something went wrong. Please try again.'',
                    timestamp = t1, isError = Some True, groundingUrls = None\<rparr>],
                inputMessage := [],
                generationState := \<lparr>isGenerating = False, progress = []\<rparr>\<rparr>"
    using assms
    by (auto simp add: handleSendMessage_in_def trim_empty_iff Let_def finally_clause_def
          catch_clause_def)
  then show ?thesis by simp
qed

lemma lookState_nonblank_buy:
  "\<not> list_all isWhiteSpace (messageText lookState (Some ''where can I buy these''))"
  by (simp add: messageText_def isWhiteSpace_def)

lemma lookState_buy_is_chat:
  "intent lookState (messageText lookState (Some ''where can I buy these'')) None = CHAT"
  by (simp add: session_defs)

theorem gateway_failure_keeps_look_witness:
  "\<not> list_all isWhiteSpace (messageText lookState (Some ''where can I buy these''))
   \<and> truthy (userImage lookState)
   \<and> ((intent lookState (messageText lookState (Some ''where can I buy these'')) None = EDIT_IMAGE
        \<and> generateEyewearImage failingBackend (rawUserImage lookState)
             (messageText lookState (Some ''where can I buy these''))
             (rawRefImage lookState None) = Inl (Error ''fetch failed''))
      \<or> (intent lookState (messageText lookState (Some ''where can I buy these'')) None = CHAT
        \<and> chatWithStylist failingBackend (messageText lookState (Some ''where can I buy these''))
             (currentContextImage lookState) (chatHistory lookState) = Inl (Error ''fetch failed'')))
   \<and> userImage (fst (handleSendMessage_in failingBackend 3 4 lookState lookState
                        (Some ''where can I buy these'') None)) = userImage lookState
   \<and> generatedImage (fst (handleSendMessage_in failingBackend 3 4 lookState lookState
                        (Some ''where can I buy these'') None)) = generatedImage lookState
   \<and> referenceImage (fst (handleSendMessage_in failingBackend 3 4 lookState lookState
                        (Some ''where can I buy these'') None)) = referenceImage lookState
   \<and> chatHistory (fst (handleSendMessage_in failingBackend 3 4 lookState lookState
                        (Some ''where can I buy these'') None)) =
       chatHistory lookState @
         [\<lparr>role = USER, msg_text = messageText lookState (Some ''where can I buy these''),
           timestamp = 3, isError = None, groundingUrls = None\<rparr>,
          \<lparr>role = MODEL, msg_text = ''Sorry, something went wrong. Please try again.'',
           timestamp = 4, isError = Some True, groundingUrls = None\<rparr>]
   \<and> isGenerating (generationState (fst (handleSendMessage_in failingBackend 3 4 lookState
                        lookState (Some ''where can I buy these'') None))) = False"
proof -
  note h1 = lookState_nonblank_buy
  note h2 = lookState_has_photo
  have f: "chatWithStylist failingBackend (messageText lookState (Some ''where can I buy these''))
             (currentContextImage lookState) (chatHistory lookState) = Inl (Error ''fetch failed'')"
    by (rule rejected_call_rejects_consultation) (simp add: failingBackend_def)
  note h3 = disjI2 [OF conjI [OF lookState_buy_is_chat f]]
  note c = gateway_failure_keeps_look [OF disjI1 [OF h1] h2 h3, of 3 4 lookState]
  show ?thesis by (rule conjI [OF h1 conjI [OF h2 conjI [OF h3 c]]])
qed

lemma currentContextImage_after_synthesis:
  assumes "generatedImage st' = Some (''data:image/jpeg;base64,'' @ bytes)"
      and "CHR '','' \<notin> set bytes"
  shows "currentContextImage st' = Some bytes"
  using assms cleanBase64_dataUrl [of bytes] by (simp add: currentContextImage_def)

text \<open>
  Claim C8.  After an accepted edit turn whose synthesis call returns the bytes
  \<open>newImageBase64\<close>: \<open>generatedImage\<close> is the JPEG data URL of those bytes (so the payload
  read back from it is the bytes themselves, base64 text having no comma), the transcript
  has grown by the USER turn and exactly one MODEL turn, and \<open>userImage\<close> is unchanged.
\<close>

theorem successful_edit_updates_look:
  assumes "\<not> list_all isWhiteSpace (messageText snap textArg) \<or> truthy overrideRefImage"
      and "truthy (userImage snap)"
      and "intent snap (messageText snap textArg) overrideRefImage = EDIT_IMAGE"
      and "generateEyewearImage ai (rawUserImage snap) (messageText snap textArg)
             (rawRefImage snap overrideRefImage) = Inr newImageBase64"
  shows "generatedImage (fst (handleSendMessage_in ai t0 t1 snap st textArg overrideRefImage)) =
           Some (''data:image/jpeg;base64,'' @ newImageBase64)
       \<and> (CHR '','' \<notin> set newImageBase64 \<longrightarrow>
            currentContextImage
              (fst (handleSendMessage_in ai t0 t1 snap st textArg overrideRefImage)) =
              Some newImageBase64)
       \<and> chatHistory (fst (handleSendMessage_in ai t0 t1 snap st textArg overrideRefImage)) =
           chatHistory st @
             [\<lparr>role = USER, msg_text = messageText snap textArg, timestamp = t0,
               isError = None, groundingUrls = None\<rparr>,
              \<lparr>role = MODEL,
               msg_text =
                 (if truthy (currentRefImage snap overrideRefImage)
                  then ''I've placed the glasses from your reference image onto your face. How do they fit?''
                  else ''Here is the updated look based on your request. Use the slider to compare!''),
               timestamp = t1, isError = None, groundingUrls = None\<rparr>]
       \<and> userImage (fst (handleSendMessage_in ai t0 t1 snap st textArg overrideRefImage)) =
           userImage st"
proof -
  have eq: "fst (handleSendMessage_in ai t0 t1 snap st textArg overrideRefImage) =
           st\<lparr>generatedImage := Some (''data:image/jpeg;base64,'' @ newImageBase64),
                chatHistory := chatHistory st @
                  [\<lparr>role = USER, msg_text = messageText snap textArg, timestamp = t0,
                    isError = None, groundingUrls = None\<rparr>,
                   \<lparr>role = MODEL, msg_text =
                      (if truthy (currentRefImage snap overrideRefImage)
                       then ''I've placed the glasses from your reference image onto your face. How do they fit?''
                       else ''Here is the updated look based on your request. Use the slider to compare!''),
                    timestamp = t1, isError = None, groundingUrls = None\<rparr>],
                inputMessage := [],
                generationState := \<lparr>isGenerating = False, progress = []\<rparr>\<rparr>"
    using assms
    by (auto simp add: handleSendMessage_in_def trim_empty_iff Let_def finally_clause_def)
  have g: "generatedImage (fst (handleSendMessage_in ai t0 t1 snap st textArg overrideRefImage)) =
           Some (''data:image/jpeg;base64,'' @ newImageBase64)"
    by (simp only: eq) simp
  have c: "CHR '','' \<notin> set newImageBase64 \<longrightarrow>
            currentContextImage
              (fst (handleSendMessage_in ai t0 t1 snap st textArg overrideRefImage)) =
              Some newImageBase64"
    using currentContextImage_after_synthesis [OF g] by blast
  have h: "chatHistory (fst (handleSendMessage_in ai t0 t1 snap st textArg overrideRefImage)) =
           chatHistory st @
             [\<lparr>role = USER, msg_text = messageText snap textArg, timestamp = t0,
               isError = None, groundingUrls = None\<rparr>,
              \<lparr>role = MODEL,
               msg_text =
                 (if truthy (currentRefImage snap overrideRefImage)
                  then ''I've placed the glasses from your reference image onto your face. How do they fit?''
                  else ''Here is the updated look based on your request. Use the slider to compare!''),
               timestamp = t1, isError = None, groundingUrls = None\<rparr>]"
    by (simp only: eq) simp
  have u: "userImage (fst (handleSendMessage_in ai t0 t1 snap st textArg overrideRefImage)) =
           userImage st"
    by (simp only: eq) simp
  show ?thesis by (rule conjI [OF g conjI [OF c conjI [OF h u]]])
qed

lemma photoState_nonblank_red:
  "\<not> list_all isWhiteSpace (messageText photoState (Some ''make the frames red''))"
  by (simp add: messageText_def isWhiteSpace_def)

lemma photoState_has_photo: "truthy (userImage photoState)"
  by (simp add: photoState_def handleUserImageUpload_def)

lemma photoState_red_is_edit:
  "intent photoState (messageText photoState (Some ''make the frames red'')) None = EDIT_IMAGE"
  by (simp add: session_defs)

lemma photoState_red_synthesis:
  "generateEyewearImage imageBackend (rawUserImage photoState)
     (messageText photoState (Some ''make the frames red'')) (rawRefImage photoState None) =
   Inr ''NEW''"
  by (simp add: generateEyewearImage_def generatedPart_def imageBackend_def)

lemma photoState_no_reference: "\<not> truthy (currentRefImage photoState None)"
  by (simp add: currentRefImage_def js_or_def photoState_def handleUserImageUpload_def
        initialState_def)

theorem successful_edit_updates_look_witness:
  "\<not> list_all isWhiteSpace (messageText photoState (Some ''make the frames red''))
   \<and> truthy (userImage photoState)
   \<and> intent photoState (messageText photoState (Some ''make the frames red'')) None = EDIT_IMAGE
   \<and> generateEyewearImage imageBackend (rawUserImage photoState)
        (messageText photoState (Some ''make the frames red'')) (rawRefImage photoState None) =
      Inr ''NEW''
   \<and> CHR '','' \<notin> set ''NEW''
   \<and> generatedImage (fst (handleSendMessage_in imageBackend 1 2 photoState photoState
                        (Some ''make the frames red'') None)) =
      Some (''data:image/jpeg;base64,'' @ ''NEW'')
   \<and> currentContextImage (fst (handleSendMessage_in imageBackend 1 2 photoState photoState
                        (Some ''make the frames red'') None)) = Some ''NEW''
   \<and> userImage (fst (handleSendMessage_in imageBackend 1 2 photoState photoState
                        (Some ''make the frames red'') None)) = userImage photoState
   \<and> length (chatHistory (fst (handleSendMessage_in imageBackend 1 2 photoState photoState
                        (Some ''make the frames red'') None))) =
      length (chatHistory photoState) + 2"
proof -
  note h1 = photoState_nonblank_red
  note h2 = photoState_has_photo
  note h3 = photoState_red_is_edit
  note h4 = photoState_red_synthesis
  have h5: "CHR '','' \<notin> set ''NEW''" by simp
  note t = successful_edit_updates_look [OF disjI1 [OF h1] h2 h3 h4, of 1 2 photoState]
  note g = t [THEN conjunct1]
  note c = t [THEN conjunct2, THEN conjunct1, THEN mp, OF h5]
  note u = t [THEN conjunct2, THEN conjunct2, THEN conjunct2]
  have l: "length (chatHistory (fst (handleSendMessage_in imageBackend 1 2 photoState photoState
                        (Some ''make the frames red'') None))) =
      length (chatHistory photoState) + 2"
    by (simp only: t [THEN conjunct2, THEN conjunct2, THEN conjunct1]) simp
  show ?thesis
    by (rule conjI [OF h1 conjI [OF h2 conjI [OF h3 conjI [OF h4 conjI [OF h5
          conjI [OF g conjI [OF c conjI [OF u l]]]]]]]])
qed

section \<open>Removing the photo\<close>

text \<open>
  Claim C9, as stated, read at a session that holds a reference image: after the remove
  button of the photo, the reference image is still there.
\<close>

theorem remove_photo_counterexample:
  "referenceImage refState = Some ''data:image/jpeg;base64,REF''
   \<and> referenceImage (removeUserImage refState) = Some ''data:image/jpeg;base64,REF''"
  by (simp add: refState_fields removeUserImage_def)

text \<open>
  Claim C9, amended.  Removing the photo clears \<open>userImage\<close> and \<open>generatedImage\<close> in one
  step and changes nothing else: \<open>referenceImage\<close> and the transcript are what they were.
\<close>

theorem removeUserImage_effect:
  "userImage (removeUserImage st) = None
   \<and> generatedImage (removeUserImage st) = None
   \<and> referenceImage (removeUserImage st) = referenceImage st
   \<and> chatHistory (removeUserImage st) = chatHistory st
   \<and> removeUserImage st = st\<lparr>userImage := None, generatedImage := None\<rparr>"
  by (simp add: removeUserImage_def)

section \<open>What a consultation request carries\<close>

lemma lookState_history_length: "length (chatHistory lookState) = 3"
  by (simp add: session_defs)

text \<open>
  Claim C2, read at a session with three recorded turns and the look \<open>NEW\<close>: the
  consultation request carries the image of the present look, the caption and the raw
  text, and nothing of the history; it is the request that an empty history gives.
\<close>

theorem consult_request_omits_history:
  "length (chatHistory lookState) = 3
   \<and> intent lookState ''where can I buy these'' None = CHAT
   \<and> snd (handleSendMessage chatBackend 3 4 lookState (Some ''where can I buy these'') None) =
       [chatWithStylist_request ''where can I buy these'' (Some ''NEW'') (chatHistory lookState)]
   \<and> chatWithStylist_request ''where can I buy these'' (Some ''NEW'') (chatHistory lookState) =
       chatWithStylist_request ''where can I buy these'' (Some ''NEW'') []
   \<and> contents_parts
       (chatWithStylist_request ''where can I buy these'' (Some ''NEW'') (chatHistory lookState)) =
       [InlineDataPart \<lparr>data = Some ''NEW'', mimeType = ''image/jpeg''\<rparr>,
        TextPart ''This is the current image of the user wearing glasses. Focus on the glasses style, shape, color, and material.'',
        TextPart ''where can I buy these'']"
proof -
  have a: "intent lookState ''where can I buy these'' None = CHAT"
    using lookState_buy_is_chat by (simp add: messageText_def)
  have b: "snd (handleSendMessage chatBackend 3 4 lookState (Some ''where can I buy these'') None) =
       [chatWithStylist_request ''where can I buy these'' (Some ''NEW'') (chatHistory lookState)]"
    by (simp add: session_defs)
  have c: "chatWithStylist_request ''where can I buy these'' (Some ''NEW'') (chatHistory lookState) =
       chatWithStylist_request ''where can I buy these'' (Some ''NEW'') []"
    by (simp add: chatWithStylist_request_def)
  have d: "contents_parts
       (chatWithStylist_request ''where can I buy these'' (Some ''NEW'') (chatHistory lookState)) =
       [InlineDataPart \<lparr>data = Some ''NEW'', mimeType = ''image/jpeg''\<rparr>,
        TextPart ''This is the current image of the user wearing glasses. Focus on the glasses style, shape, color, and material.'',
        TextPart ''where can I buy these'']"
    by (simp add: chatWithStylist_request_def fileToGenerativePart_def)
  show ?thesis
    by (rule conjI [OF lookState_history_length conjI [OF a conjI [OF b conjI [OF c d]]]])
qed

end
